theory Spec2Isabelle
  imports Complex_Main
begin

section \<open>JavaScript strings\<close>

text \<open>
  A JavaScript string is modelled as a \<open>string\<close>, one \<open>char\<close> per code unit; the model
  covers the code units below 256. \<open>String.prototype.trim\<close> removes WhiteSpace and
  LineTerminator code units from both ends; in this range they are TAB, LF, VT, FF, CR,
  SPACE and NBSP.
\<close>

definition is_js_space :: "char \<Rightarrow> bool" where
  "is_js_space c \<longleftrightarrow>
     c \<in> set [CHR 0x09, CHR 0x0A, CHR 0x0B, CHR 0x0C, CHR 0x0D, CHR 0x20, CHR 0xA0]"

definition trim :: "string \<Rightarrow> string" where
  "trim s = rev (dropWhile is_js_space (rev (dropWhile is_js_space s)))"

text \<open>
  \<open>s.split(',')\<close> with a one-character separator: the pieces between the separators,
  left to right; a string with \<open>n\<close> separators has \<open>n + 1\<close> pieces, some possibly empty.
  \<open>cur\<close> holds the current piece, reversed.
\<close>

fun split_from :: "char \<Rightarrow> string \<Rightarrow> string \<Rightarrow> string list" where
  "split_from sep cur [] = [rev cur]"
| "split_from sep cur (c # cs) =
     (if c = sep then rev cur # split_from sep [] cs else split_from sep (c # cur) cs)"

definition split :: "char \<Rightarrow> string \<Rightarrow> string list" where
  "split sep s = split_from sep [] s"

section \<open>JavaScript numbers\<close>

text \<open>
  A Number is NaN, an infinity, or a finite double, given by its exact rational value.
  The two zeros are one value here: the program only compares numbers and serialises
  them, and \<open>-0 < 0\<close> is false and \<open>JSON.stringify(-0)\<close> is \<open>0\<close>.
\<close>

datatype jsnum = NaN | NegInf | Fin rat | PosInf

fun js_less :: "jsnum \<Rightarrow> jsnum \<Rightarrow> bool" where
  "js_less NaN _ = False"
| "js_less _ NaN = False"
| "js_less NegInf NegInf = False"
| "js_less NegInf _ = True"
| "js_less (Fin a) (Fin b) = (a < b)"
| "js_less (Fin a) PosInf = True"
| "js_less (Fin a) NegInf = False"
| "js_less PosInf _ = False"

definition isNaN :: "jsnum \<Rightarrow> bool" where
  "isNaN n \<longleftrightarrow> n = NaN"

subsection \<open>Rounding a rational to the nearest double\<close>

text \<open>The number of binary digits of a positive integer.\<close>

function bit_len :: "int \<Rightarrow> int" where
  "bit_len n = (if n \<le> 0 then 0 else 1 + bit_len (n div 2))"
  by pat_completeness auto
termination
  by (relation "measure nat") auto

declare bit_len.simps [simp del]

definition pow2 :: "int \<Rightarrow> rat" where
  "pow2 k = (if 0 \<le> k then 2 ^ nat k else 1 / 2 ^ nat (- k))"

text \<open>The exponent \<open>e\<close> with \<open>2^e \<le> a < 2^(e+1)\<close>, for \<open>a > 0\<close>.\<close>

definition floor_log2 :: "rat \<Rightarrow> int" where
  "floor_log2 a =
     (let (p, d) = quotient_of a;
          k = bit_len p - bit_len d
      in if pow2 k \<le> a then k else k - 1)"

definition round_half_even :: "rat \<Rightarrow> int" where
  "round_half_even x =
     (let f = \<lfloor>x\<rfloor>; r = x - of_int f
      in if r < 1 / 2 then f else if 1 / 2 < r then f + 1
         else if even f then f else f + 1)"

text \<open>
  Round to nearest, ties to even, with 53 significant bits, exponents from -1022
  (subnormals below) and overflow to an infinity from \<open>2^1024\<close>.
\<close>

definition to_double :: "rat \<Rightarrow> jsnum" where
  "to_double x =
     (if x = 0 then Fin 0
      else
        let a = \<bar>x\<bar>;
            e = max (floor_log2 a) (- 1022);
            q = pow2 (e - 52);
            v = of_int (round_half_even (a / q)) * q
        in if pow2 1024 \<le> v then (if x < 0 then NegInf else PosInf)
           else Fin (if x < 0 then - v else v))"

subsection \<open>\<open>Number(s)\<close> on a string\<close>

text \<open>
  The value of a digit character (decimal digits, and \<open>a\<close>-\<open>f\<close> in either case for the
  non-decimal literals).
\<close>

definition digit_of :: "char \<Rightarrow> int option" where
  "digit_of c =
     (let n = of_char c :: int in
      if 48 \<le> n \<and> n \<le> 57 then Some (n - 48)
      else if 97 \<le> n \<and> n \<le> 102 then Some (n - 87)
      else if 65 \<le> n \<and> n \<le> 70 then Some (n - 55)
      else None)"

definition is_digit_in :: "int \<Rightarrow> char \<Rightarrow> bool" where
  "is_digit_in base c = (case digit_of c of None \<Rightarrow> False | Some d \<Rightarrow> d < base)"

definition digits_value :: "int \<Rightarrow> string \<Rightarrow> int" where
  "digits_value base ds = foldl (\<lambda>acc c. acc * base + (case digit_of c of None \<Rightarrow> 0 | Some d \<Rightarrow> d)) 0 ds"

definition pow10 :: "int \<Rightarrow> rat" where
  "pow10 k = (if 0 \<le> k then 10 ^ nat k else 1 / 10 ^ nat (- k))"

text \<open>
  ExponentPart, optional: \<open>e\<close> or \<open>E\<close>, an optional sign, and one or more decimal digits up
  to the end of the text. \<open>None\<close> is a syntax error.
\<close>

definition signed_integer :: "string \<Rightarrow> int option" where
  "signed_integer s =
     (let (neg, ds) =
            (case s of
               c # t \<Rightarrow> if c = CHR ''-'' then (True, t) else if c = CHR ''+'' then (False, t)
                        else (False, s)
             | [] \<Rightarrow> (False, s))
      in if ds \<noteq> [] \<and> list_all (is_digit_in 10) ds
         then Some (if neg then - digits_value 10 ds else digits_value 10 ds)
         else None)"

definition exponent_part :: "string \<Rightarrow> int option" where
  "exponent_part s =
     (case s of
        [] \<Rightarrow> Some 0
      | c # t \<Rightarrow> if c = CHR ''e'' \<or> c = CHR ''E'' then signed_integer t else None)"

text \<open>
  StrUnsignedDecimalLiteral other than \<open>Infinity\<close>: digits, an optional point and more
  digits (at least one digit on one side of the point), an optional exponent. The result
  is the exact mathematical value of the literal.
\<close>

definition unsigned_decimal :: "string \<Rightarrow> rat option" where
  "unsigned_decimal s =
     (let ip = takeWhile (is_digit_in 10) s;
          r1 = dropWhile (is_digit_in 10) s;
          (fp, r2) =
            (case r1 of
               c # t \<Rightarrow> if c = CHR ''.''
                        then (takeWhile (is_digit_in 10) t, dropWhile (is_digit_in 10) t)
                        else ([], r1)
             | [] \<Rightarrow> ([], r1))
      in if ip = [] \<and> fp = [] then None
         else (case exponent_part r2 of
                 None \<Rightarrow> None
               | Some e \<Rightarrow>
                   Some (of_int (digits_value 10 (ip @ fp)) * pow10 (e - int (length fp)))))"

text \<open>NonDecimalIntegerLiteral: \<open>0b\<close>, \<open>0o\<close> or \<open>0x\<close> (either case) and digits of that base.\<close>

definition non_decimal :: "string \<Rightarrow> int option" where
  "non_decimal s =
     (case s of
        z # p # ds \<Rightarrow>
          (let base = (if p = CHR ''x'' \<or> p = CHR ''X'' then 16
                       else if p = CHR ''o'' \<or> p = CHR ''O'' then 8
                       else if p = CHR ''b'' \<or> p = CHR ''B'' then 2 else (0::int))
           in if z = CHR ''0'' \<and> 0 < base \<and> ds \<noteq> [] \<and> list_all (is_digit_in base) ds
              then Some (digits_value base ds) else None)
      | _ \<Rightarrow> None)"

text \<open>
  StringToNumber: white space around the literal is dropped; the empty text is 0; a
  non-decimal literal takes no sign; a decimal literal or \<open>Infinity\<close> takes an optional
  sign; anything else is NaN.
\<close>

definition string_to_number :: "string \<Rightarrow> jsnum" where
  "string_to_number s =
     (let t = trim s in
      if t = [] then Fin 0
      else (case non_decimal t of
              Some n \<Rightarrow> to_double (of_int n)
            | None \<Rightarrow>
                (let (neg, u) =
                       (case t of
                          c # r \<Rightarrow> if c = CHR ''-'' then (True, r)
                                   else if c = CHR ''+'' then (False, r) else (False, t)
                        | [] \<Rightarrow> (False, t))
                 in if u = ''Infinity'' then (if neg then NegInf else PosInf)
                    else (case unsigned_decimal u of
                            None \<Rightarrow> NaN
                          | Some q \<Rightarrow> to_double (if neg then - q else q)))))"

section \<open>Values exchanged with the backend\<close>

text \<open>
  A JSON value as \<open>res.json()\<close> delivers it. \<open>JObject\<close> lists the own properties of the
  parsed object, each key once.
\<close>

datatype json =
    JNull
  | JBool bool
  | JNumber jsnum
  | JString string
  | JArray "json list"
  | JObject "(string \<times> json) list"

text \<open>
  \<open>v.name\<close> for a parsed JSON value other than \<open>null\<close>: the own property of an object,
  \<open>undefined\<close> (here \<open>None\<close>) when there is none; primitives and arrays have no property
  called \<open>detail\<close>, the only name the program reads.
\<close>

fun property :: "json \<Rightarrow> string \<Rightarrow> json option" where
  "property (JObject kvs) name = map_of kvs name"
| "property _ name = None"

text \<open>ToBoolean, as \<open>||\<close> applies it.\<close>

fun truthy :: "json \<Rightarrow> bool" where
  "truthy JNull = False"
| "truthy (JBool b) = b"
| "truthy (JNumber n) = (n \<noteq> NaN \<and> n \<noteq> Fin 0)"
| "truthy (JString s) = (s \<noteq> [])"
| "truthy (JArray _) = True"
| "truthy (JObject _) = True"

text \<open>
  What \<open>await fetch(...)\<close> gives: the promise rejects with an error that carries a
  message, or it resolves to a response with a status; \<open>res.json()\<close> on that response
  rejects with a message (\<open>Inl\<close>) or resolves to a JSON value (\<open>Inr\<close>).
\<close>

datatype fetch_result =
    Rejected string
  | Response (status: nat) (json_body: "string + json")

definition ok :: "nat \<Rightarrow> bool" where
  "ok st \<longleftrightarrow> 200 \<le> st \<and> st \<le> 299"

text \<open>
  Two strings come from the JavaScript engine, not from the program: the message of the
  TypeError raised by reading a property of \<open>null\<close>, and the message that results from
  \<open>new Error(v)\<close> for a truthy \<open>v\<close> that is not a string (the ToString of \<open>v\<close>, or the
  message of the TypeError that ToString raises).
\<close>

record engine =
  null_property_message :: string
  coerced_message :: "json \<Rightarrow> string"

text \<open>The decimal digits of a status code, as the template literal prints it.\<close>

fun decimal :: "nat \<Rightarrow> string" where
  "decimal n =
     (if n < 10 then [char_of (48 + n)] else decimal (n div 10) @ [char_of (48 + n mod 10)])"

declare decimal.simps [simp del]

section \<open>Application state\<close>

text \<open>
  A form field holds the number the state was initialised with, or the text of the
  input element; only \<open>rating\<close> starts as a number.
\<close>

datatype input = NumberValue jsnum | TextValue string

text \<open>\<open>Number(v)\<close>.\<close>

fun to_number :: "input \<Rightarrow> jsnum" where
  "to_number (NumberValue n) = n"
| "to_number (TextValue s) = string_to_number s"

record form_state =
  title :: string
  rating :: input
  review :: string
  watched_on :: string
  poster_url :: string
  tags :: string

definition empty_form :: form_state where
  "empty_form =
     \<lparr>title = [], rating = NumberValue (Fin 7), review = [], watched_on = [],
      poster_url = [], tags = []\<rparr>"

record payload =
  p_title :: string
  p_review :: string
  p_rating :: jsnum
  p_watched_on :: "string option"
  p_poster_url :: "string option"
  p_tags :: "string list option"

datatype request = Get_reviews | Post_review payload

text \<open>
  The state of \<open>App\<close>, and with it the requests issued so far, oldest first.
\<close>

record app_state =
  form :: form_state
  submitting :: bool
  error :: string
  success :: string
  items :: json
  loading :: bool
  requests :: "request list"

definition initial_state :: app_state where
  "initial_state =
     \<lparr>form = empty_form, submitting = False, error = [], success = [],
      items = JArray [], loading = True, requests = []\<rparr>"

section \<open>loadReviews\<close>

text \<open>The body of the \<open>try\<close>: \<open>Inl\<close> is the message of the error thrown.\<close>

definition fetch_reviews :: "fetch_result \<Rightarrow> string + json" where
  "fetch_reviews res =
     (case res of
        Rejected m \<Rightarrow> Inl m
      | Response st body \<Rightarrow>
          if \<not> ok st then Inl (''Failed: '' @ decimal st)
          else (case body of Inl m \<Rightarrow> Inl m | Inr data \<Rightarrow> Inr data))"

definition loadReviews :: "fetch_result \<Rightarrow> app_state \<Rightarrow> app_state" where
  "loadReviews res s =
     (let s1 = s\<lparr>loading := True, requests := requests s @ [Get_reviews]\<rparr>;
          s2 = (case fetch_reviews res of
                  Inr data \<Rightarrow> s1\<lparr>items := data\<rparr>
                | Inl m \<Rightarrow> s1\<lparr>error := m\<rparr>)
      in s2\<lparr>loading := False\<rparr>)"

section \<open>onSubmit\<close>

text \<open>\<open>x || null\<close> on a string.\<close>

definition or_null :: "string \<Rightarrow> string option" where
  "or_null x = (if x = [] then None else Some x)"

definition make_payload :: "form_state \<Rightarrow> payload" where
  "make_payload f =
     \<lparr>p_title = trim (title f),
      p_review = trim (review f),
      p_rating = to_number (rating f),
      p_watched_on = or_null (watched_on f),
      p_poster_url = or_null (poster_url f),
      p_tags = (if tags f \<noteq> []
                then Some (filter (\<lambda>t. t \<noteq> []) (map trim (split CHR '','' (tags f))))
                else None)\<rparr>"

text \<open>The two checks before the request: the message thrown, if any.\<close>

definition validate :: "payload \<Rightarrow> string option" where
  "validate p =
     (if p_title p = [] \<or> p_review p = []
      then Some ''Please provide at least a title and your review.''
      else if isNaN (p_rating p) \<or> js_less (p_rating p) (Fin 0) \<or> js_less (Fin 10) (p_rating p)
      then Some ''Rating must be between 0 and 10''
      else None)"

text \<open>
  The message thrown for a response that is not ok:
  \<open>detail = await res.json().catch(() => ({}))\<close>, then
  \<open>new Error(detail.detail || 'Failed to save review')\<close>.
\<close>

definition failure_message :: "engine \<Rightarrow> string + json \<Rightarrow> string" where
  "failure_message E body =
     (case body of
        Inl _ \<Rightarrow> ''Failed to save review''
      | Inr JNull \<Rightarrow> null_property_message E
      | Inr v \<Rightarrow>
          (case property v ''detail'' of
             None \<Rightarrow> ''Failed to save review''
           | Some d \<Rightarrow>
               if truthy d
               then (case d of JString m \<Rightarrow> m | _ \<Rightarrow> coerced_message E d)
               else ''Failed to save review''))"

text \<open>
  The body of the \<open>try\<close> in \<open>onSubmit\<close>, from the state after the three setters that
  precede it: the state it leaves and the message of the error thrown, if any.
  \<open>post\<close> answers the POST and \<open>get\<close> the GET of the reload.
\<close>

definition submit_body ::
  "engine \<Rightarrow> fetch_result \<Rightarrow> fetch_result \<Rightarrow> form_state \<Rightarrow> app_state
     \<Rightarrow> app_state \<times> string option" where
  "submit_body E post get f s =
     (let p = make_payload f in
      case validate p of
        Some m \<Rightarrow> (s, Some m)
      | None \<Rightarrow>
          (let s1 = s\<lparr>requests := requests s @ [Post_review p]\<rparr> in
           case post of
             Rejected m \<Rightarrow> (s1, Some m)
           | Response st body \<Rightarrow>
               if \<not> ok st then (s1, Some (failure_message E body))
               else (loadReviews get (s1\<lparr>success := ''Saved!'', form := empty_form\<rparr>), None)))"

definition onSubmit ::
  "engine \<Rightarrow> fetch_result \<Rightarrow> fetch_result \<Rightarrow> app_state \<Rightarrow> app_state" where
  "onSubmit E post get s =
     (let s0 = s\<lparr>error := [], success := [], submitting := True\<rparr>;
          (s1, thrown) = submit_body E post get (form s) s0;
          s2 = (case thrown of Some m \<Rightarrow> s1\<lparr>error := m\<rparr> | None \<Rightarrow> s1)
      in s2\<lparr>submitting := False\<rparr>)"

section \<open>onChange and runs of the application\<close>

text \<open>
  \<open>onChange\<close> stores the text of the input element under the element's name; the six
  inputs of the form are the six fields.
\<close>

datatype field_name = Title | Rating | Review | Watched_on | Poster_url | Tags

fun set_field :: "field_name \<Rightarrow> string \<Rightarrow> form_state \<Rightarrow> form_state" where
  "set_field Title v f = f\<lparr>title := v\<rparr>"
| "set_field Rating v f = f\<lparr>rating := TextValue v\<rparr>"
| "set_field Review v f = f\<lparr>review := v\<rparr>"
| "set_field Watched_on v f = f\<lparr>watched_on := v\<rparr>"
| "set_field Poster_url v f = f\<lparr>poster_url := v\<rparr>"
| "set_field Tags v f = f\<lparr>tags := v\<rparr>"

definition onChange :: "field_name \<Rightarrow> string \<Rightarrow> app_state \<Rightarrow> app_state" where
  "onChange name v s = s\<lparr>form := set_field name v (form s)\<rparr>"

text \<open>
  The operations run one after the other, each to completion: a load with the answer to
  its GET, a change of a field, a submit with the answers to its POST and to the GET of
  its reload.
\<close>

datatype event =
    Load fetch_result
  | Change field_name string
  | Submit fetch_result fetch_result

fun step :: "engine \<Rightarrow> app_state \<Rightarrow> event \<Rightarrow> app_state" where
  "step E s (Load get) = loadReviews get s"
| "step E s (Change name v) = onChange name v s"
| "step E s (Submit post get) = onSubmit E post get s"

definition run :: "engine \<Rightarrow> event list \<Rightarrow> app_state \<Rightarrow> app_state" where
  "run E evs s = foldl (step E) s evs"

text \<open>The GET of an event, if it has one, delivers a list.\<close>

fun get_succeeds :: "event \<Rightarrow> bool" where
  "get_succeeds (Load get) = (case fetch_reviews get of Inr _ \<Rightarrow> True | Inl _ \<Rightarrow> False)"
| "get_succeeds (Change _ _) = True"
| "get_succeeds (Submit _ get) = (case fetch_reviews get of Inr _ \<Rightarrow> True | Inl _ \<Rightarrow> False)"

section \<open>Auxiliary notions for the statements\<close>

text \<open>\<open>ps.join(sep)\<close>, the inverse of \<open>split\<close>.\<close>

fun join :: "char \<Rightarrow> string list \<Rightarrow> string" where
  "join sep [] = []"
| "join sep [p] = p"
| "join sep (p # q # ps) = p @ sep # join sep (q # ps)"

text \<open>
  An engine for the worked examples, with the message Firefox gives for a property read
  on \<open>null\<close> and the text of a plain object for every coerced value.
\<close>

definition example_engine :: engine where
  "example_engine =
     \<lparr>null_property_message = ''detail is null'',
      coerced_message = (\<lambda>v. ''[object Object]'')\<rparr>"

text \<open>A filled-in form and a state holding it, for the worked examples.\<close>

definition example_form :: form_state where
  "example_form =
     \<lparr>title = ''  Inception  '', rating = NumberValue (Fin 7),
      review = ''A dream within a dream.'', watched_on = [],
      poster_url = ''https://example.org/inception.jpg'',
      tags = ''action, sci-fi ,  , classic''\<rparr>"

definition example_state :: app_state where
  "example_state = initial_state\<lparr>form := example_form, loading := False\<rparr>"

section \<open>Facts about the string operations\<close>

lemma split_from_nonempty: "split_from sep cur s \<noteq> []"
  by (induction s arbitrary: cur) auto

lemma join_Cons: "join sep (p # ps) = (if ps = [] then p else p @ sep # join sep ps)"
  by (cases ps) auto

lemma join_split_from: "join sep (split_from sep cur s) = rev cur @ s"
  by (induction s arbitrary: cur) (auto simp: join_Cons split_from_nonempty)

lemma join_split: "join sep (split sep s) = s"
  by (simp add: split_def join_split_from)

lemma split_from_no_sep:
  "sep \<notin> set cur \<Longrightarrow> p \<in> set (split_from sep cur s) \<Longrightarrow> sep \<notin> set p"
proof (induction s arbitrary: cur)
  case Nil
  then show ?case by auto
next
  case (Cons c cs)
  show ?case
  proof (cases "c = sep")
    case True
    with Cons.prems have "p = rev cur \<or> p \<in> set (split_from sep [] cs)" by simp
    then show ?thesis using Cons.prems(1) Cons.IH[of "[]"] by auto
  next
    case False
    with Cons.prems have "p \<in> set (split_from sep (c # cur) cs)" by simp
    then show ?thesis using Cons.prems(1) False Cons.IH[of "c # cur"] by auto
  qed
qed

lemma split_no_sep: "p \<in> set (split sep s) \<Longrightarrow> sep \<notin> set p"
  unfolding split_def using split_from_no_sep[of sep "[]"] by simp

lemma length_split_from:
  "length (split_from sep cur s) = Suc (length (filter (\<lambda>c. c = sep) s))"
  by (induction s arbitrary: cur) auto

lemma trim_decomp:
  "\<exists>a b. s = a @ trim s @ b \<and> list_all is_js_space a \<and> list_all is_js_space b"
proof -
  let ?a = "takeWhile is_js_space s"
  let ?r = "dropWhile is_js_space s"
  let ?b = "rev (takeWhile is_js_space (rev ?r))"
  have 1: "s = ?a @ ?r" by simp
  have 2: "?r = trim s @ ?b"
    unfolding trim_def
    by (metis rev_append rev_rev_ident takeWhile_dropWhile_id)
  have "list_all is_js_space ?a" by (simp add: list_all_iff) (meson set_takeWhileD)
  moreover have "list_all is_js_space ?b" by (simp add: list_all_iff) (meson set_takeWhileD)
  ultimately show ?thesis using 1 2 by metis
qed

lemma last_dropWhile: "ys \<noteq> [] \<Longrightarrow> \<not> P (last ys) \<Longrightarrow> last (dropWhile P ys) = last ys"
  by (induction ys) auto

lemma dropWhile_nonempty: "ys \<noteq> [] \<Longrightarrow> \<not> P (last ys) \<Longrightarrow> dropWhile P ys \<noteq> []"
  by (induction ys) (auto split: if_splits)

lemma trim_hd: "trim s \<noteq> [] \<Longrightarrow> \<not> is_js_space (hd (trim s))"
proof -
  assume ne: "trim s \<noteq> []"
  let ?xs = "dropWhile is_js_space s"
  have xs: "?xs \<noteq> []"
  proof
    assume "?xs = []"
    then have "trim s = []" unfolding trim_def by (simp only: rev.simps dropWhile.simps)
    with ne show False by simp
  qed
  then have nsp: "\<not> is_js_space (hd ?xs)" by (rule hd_dropWhile)
  have "last (rev ?xs) = hd ?xs" using xs by (simp add: last_rev)
  then have "last (dropWhile is_js_space (rev ?xs)) = hd ?xs"
    using last_dropWhile[of "rev ?xs" is_js_space] xs nsp by simp
  moreover have "dropWhile is_js_space (rev ?xs) \<noteq> []" using ne by (simp add: trim_def)
  ultimately have "hd (trim s) = hd ?xs" by (simp add: trim_def hd_rev)
  then show ?thesis using nsp by simp
qed
lemma trim_last: "trim s \<noteq> [] \<Longrightarrow> \<not> is_js_space (last (trim s))"
  unfolding trim_def
  by (metis hd_dropWhile hd_rev rev_is_Nil_conv rev_rev_ident)

lemma trim_Nil: "trim [] = []"
  by (simp add: trim_def)

lemma set_trim: "set (trim s) \<subseteq> set s"
proof -
  obtain a b where "s = a @ trim s @ b" using trim_decomp by blast
  then have "set s = set a \<union> set (trim s) \<union> set b" by (metis set_append sup_assoc)
  then show ?thesis by blast
qed

section \<open>Facts about the binary exponent\<close>

lemma bit_len_pos: "0 < n \<Longrightarrow> 0 < bit_len n"
proof (induction n rule: bit_len.induct)
  case (1 n)
  have "0 \<le> bit_len (n div 2)"
  proof (cases "0 < n div 2")
    case True
    then show ?thesis using 1 by simp
  next
    case False
    then show ?thesis by (simp add: bit_len.simps[of "n div 2"])
  qed
  then show ?case using 1(2) by (simp add: bit_len.simps[of n])
qed

lemma bit_len_bounds:
  "0 < n \<Longrightarrow> 2 ^ nat (bit_len n - 1) \<le> n \<and> n < 2 ^ nat (bit_len n)"
proof (induction n rule: bit_len.induct)
  case (1 n)
  show ?case
  proof (cases "n = 1")
    case True
    then show ?thesis by (simp add: bit_len.simps[of 1] bit_len.simps[of 0])
  next
    case False
    with 1(2) have h: "0 < n div 2" by simp
    let ?b = "bit_len (n div 2)"
    have ih: "2 ^ nat (?b - 1) \<le> n div 2" "n div 2 < 2 ^ nat ?b"
      using 1(1) 1(2) h by simp_all
    have pos: "0 < ?b" using h by (rule bit_len_pos)
    have bn: "bit_len n = 1 + ?b" using 1(2) by (simp add: bit_len.simps[of n])
    have "nat ?b = Suc (nat (?b - 1))" using pos by arith
    then have e1: "(2::int) ^ nat ?b = 2 * 2 ^ nat (?b - 1)" by simp
    have e2: "(2::int) ^ nat (1 + ?b) = 2 * 2 ^ nat ?b"
      using pos by (simp add: nat_add_distrib)
    have "2 ^ nat ?b \<le> n" using ih(1) e1 by linarith
    moreover have "n < 2 ^ nat (1 + ?b)" using ih(2) e2 by linarith
    ultimately show ?thesis using bn by simp
  qed
qed


lemma pow2_powi: "pow2 k = 2 powi k"
  by (simp add: pow2_def power_int_def power_one_over inverse_eq_divide)

lemma floor_log2_bounds:
  assumes "0 < a"
  shows "pow2 (floor_log2 a) \<le> a \<and> a < pow2 (floor_log2 a + 1)"
proof -
  obtain p d where q: "quotient_of a = (p, d)" by (cases "quotient_of a")
  then have d: "0 < d" and a: "a = of_int p / of_int d"
    using quotient_of_denom_pos quotient_of_div by blast+
  have p: "0 < p" using assms a d by (simp add: zero_less_divide_iff)
  let ?bp = "bit_len p" and ?bd = "bit_len d"
  let ?k = "?bp - ?bd"
  have bp: "(2::rat) powi (?bp - 1) \<le> of_int p" "of_int p < (2::rat) powi ?bp"
  proof -
    have "(2::int) ^ nat (?bp - 1) \<le> p" "p < 2 ^ nat ?bp"
      using bit_len_bounds[OF p] by simp_all
    then have "of_int ((2::int) ^ nat (?bp - 1)) \<le> (of_int p :: rat)"
      "(of_int p :: rat) < of_int (2 ^ nat ?bp)"
      by (simp_all only: of_int_le_iff of_int_less_iff)
    then show "(2::rat) powi (?bp - 1) \<le> of_int p" "of_int p < (2::rat) powi ?bp"
      using bit_len_pos[OF p] by (simp_all add: power_int_def)
  qed
  have bd: "(2::rat) powi (?bd - 1) \<le> of_int d" "of_int d < (2::rat) powi ?bd"
  proof -
    have "(2::int) ^ nat (?bd - 1) \<le> d" "d < 2 ^ nat ?bd"
      using bit_len_bounds[OF d] by simp_all
    then have "of_int ((2::int) ^ nat (?bd - 1)) \<le> (of_int d :: rat)"
      "(of_int d :: rat) < of_int (2 ^ nat ?bd)"
      by (simp_all only: of_int_le_iff of_int_less_iff)
    then show "(2::rat) powi (?bd - 1) \<le> of_int d" "of_int d < (2::rat) powi ?bd"
      using bit_len_pos[OF d] by (simp_all add: power_int_def)
  qed
  have dpos: "(0::rat) < of_int d" using d by simp
  have lo: "pow2 (?k - 1) \<le> a"
  proof -
    have k1: "?k - 1 = (?bp - 1) - ?bd" by simp
    have "(2::rat) powi (?k - 1) = 2 powi (?bp - 1) / 2 powi ?bd"
      unfolding k1 by (rule power_int_diff) simp
    also have "\<dots> \<le> of_int p / 2 powi ?bd"
      using bp(1) by (simp add: divide_right_mono)
    also have "\<dots> \<le> of_int p / of_int d"
      using bd(2) dpos p by (simp add: frac_le)
    finally show ?thesis by (simp add: pow2_powi a)
  qed
  have hi: "a < pow2 (?k + 1)"
  proof -
    have pw: "(0::rat) < 2 powi (?bd - 1)" by simp
    have "of_int p / of_int d \<le> of_int p / (2::rat) powi (?bd - 1)"
      using bd(1) pw p by (simp add: frac_le)
    also have "\<dots> < 2 powi ?bp / 2 powi (?bd - 1)"
      using bp(2) pw by (simp add: divide_strict_right_mono)
    also have "\<dots> = 2 powi (?bp - (?bd - 1))"
      by (rule power_int_diff[symmetric]) simp
    also have "\<dots> = 2 powi (?k + 1)"
      by (simp add: algebra_simps)
    finally show ?thesis by (simp add: pow2_powi a)
  qed
  have fl: "floor_log2 a = (if pow2 ?k \<le> a then ?k else ?k - 1)"
    by (simp add: floor_log2_def q)
  show ?thesis
  proof (cases "pow2 ?k \<le> a")
    case True
    then show ?thesis using hi fl by simp
  next
    case False
    then show ?thesis using lo fl by simp
  qed
qed

section \<open>The paths through loadReviews and onSubmit\<close>

lemma onSubmit_invalid:
  "validate (make_payload (form s)) = Some m \<Longrightarrow>
   onSubmit E post get s = s\<lparr>error := m, success := [], submitting := False\<rparr>"
  by (simp add: onSubmit_def submit_body_def)

lemma onSubmit_rejected:
  "validate (make_payload (form s)) = None \<Longrightarrow>
   onSubmit E (Rejected m) get s =
     s\<lparr>error := m, success := [], submitting := False,
       requests := requests s @ [Post_review (make_payload (form s))]\<rparr>"
  by (simp add: onSubmit_def submit_body_def)

lemma onSubmit_not_ok:
  "validate (make_payload (form s)) = None \<Longrightarrow> \<not> ok st \<Longrightarrow>
   onSubmit E (Response st body) get s =
     s\<lparr>error := failure_message E body, success := [], submitting := False,
       requests := requests s @ [Post_review (make_payload (form s))]\<rparr>"
  by (simp add: onSubmit_def submit_body_def)

lemma onSubmit_ok:
  "validate (make_payload (form s)) = None \<Longrightarrow> ok st \<Longrightarrow>
   onSubmit E (Response st body) get s =
     (loadReviews get
        (s\<lparr>error := [], submitting := True,
           requests := requests s @ [Post_review (make_payload (form s))],
           success := ''Saved!'', form := empty_form\<rparr>))
     \<lparr>submitting := False\<rparr>"
  by (simp add: onSubmit_def submit_body_def)

lemma loadReviews_ok:
  "fetch_reviews get = Inr data \<Longrightarrow>
   loadReviews get s =
     s\<lparr>items := data, loading := False, requests := requests s @ [Get_reviews]\<rparr>"
  by (simp add: loadReviews_def)

lemma loadReviews_failed:
  "fetch_reviews get = Inl m \<Longrightarrow>
   loadReviews get s =
     s\<lparr>error := m, loading := False, requests := requests s @ [Get_reviews]\<rparr>"
  by (simp add: loadReviews_def)

lemma loadReviews_frame:
  "requests (loadReviews get s) = requests s @ [Get_reviews]"
  "success (loadReviews get s) = success s"
  "form (loadReviews get s) = form s"
  "submitting (loadReviews get s) = submitting s"
  "\<not> loading (loadReviews get s)"
  by (simp_all add: loadReviews_def Let_def split: sum.splits)

lemma requests_onSubmit:
  "requests (onSubmit E post get s) =
     requests s @
     (case validate (make_payload (form s)) of
        Some m \<Rightarrow> []
      | None \<Rightarrow>
          Post_review (make_payload (form s)) #
          (case post of
             Rejected m \<Rightarrow> []
           | Response st body \<Rightarrow> if ok st then [Get_reviews] else []))"
proof (cases "validate (make_payload (form s))")
  case None
  show ?thesis
  proof (cases post)
    case (Rejected m)
    with None show ?thesis by (simp add: onSubmit_rejected)
  next
    case (Response st body)
    with None show ?thesis
      by (cases "ok st") (simp_all add: onSubmit_not_ok onSubmit_ok loadReviews_frame)
  qed
next
  case (Some m)
  then show ?thesis by (simp add: onSubmit_invalid)
qed

lemma submitting_onSubmit: "\<not> submitting (onSubmit E post get s)"
  by (simp add: onSubmit_def split: prod.splits option.splits)

lemma items_onSubmit_ok:
  "validate (make_payload (form s)) = None \<Longrightarrow> ok st \<Longrightarrow>
   items (onSubmit E (Response st body) get s) =
     (case fetch_reviews get of Inr data \<Rightarrow> data | Inl m \<Rightarrow> items s)"
  by (simp add: onSubmit_ok loadReviews_def Let_def split: sum.splits)

lemma messages_onSubmit:
  "error (onSubmit E post get s) =
     (case validate (make_payload (form s)) of
        Some m \<Rightarrow> m
      | None \<Rightarrow>
          (case post of
             Rejected m \<Rightarrow> m
           | Response st body \<Rightarrow>
               if ok st then (case fetch_reviews get of Inr data \<Rightarrow> [] | Inl m \<Rightarrow> m)
               else failure_message E body))"
  "success (onSubmit E post get s) =
     (case validate (make_payload (form s)) of
        Some m \<Rightarrow> []
      | None \<Rightarrow>
          (case post of
             Rejected m \<Rightarrow> []
           | Response st body \<Rightarrow> if ok st then ''Saved!'' else []))"
proof -
  show "error (onSubmit E post get s) =
     (case validate (make_payload (form s)) of
        Some m \<Rightarrow> m
      | None \<Rightarrow>
          (case post of
             Rejected m \<Rightarrow> m
           | Response st body \<Rightarrow>
               if ok st then (case fetch_reviews get of Inr data \<Rightarrow> [] | Inl m \<Rightarrow> m)
               else failure_message E body))"
  proof (cases "validate (make_payload (form s))")
    case None
    show ?thesis
    proof (cases post)
      case (Rejected m)
      with None show ?thesis by (simp add: onSubmit_rejected)
    next
      case (Response st body)
      with None show ?thesis
        by (cases "ok st")
           (simp_all add: onSubmit_not_ok onSubmit_ok loadReviews_def Let_def split: sum.splits)
    qed
  next
    case (Some m)
    then show ?thesis by (simp add: onSubmit_invalid)
  qed
  show "success (onSubmit E post get s) =
     (case validate (make_payload (form s)) of
        Some m \<Rightarrow> []
      | None \<Rightarrow>
          (case post of
             Rejected m \<Rightarrow> []
           | Response st body \<Rightarrow> if ok st then ''Saved!'' else []))"
  proof (cases "validate (make_payload (form s))")
    case None
    show ?thesis
    proof (cases post)
      case (Rejected m)
      with None show ?thesis by (simp add: onSubmit_rejected)
    next
      case (Response st body)
      with None show ?thesis
        by (cases "ok st") (simp_all add: onSubmit_not_ok onSubmit_ok loadReviews_frame)
    qed
  next
    case (Some m)
    then show ?thesis by (simp add: onSubmit_invalid)
  qed
qed

lemma failure_message_unparseable:
  "failure_message E (Inl e) = ''Failed to save review''"
  by (simp add: failure_message_def)

lemma failure_message_null:
  "failure_message E (Inr JNull) = null_property_message E"
  by (simp add: failure_message_def)

lemma failure_message_value:
  "v \<noteq> JNull \<Longrightarrow>
   failure_message E (Inr v) =
     (case property v ''detail'' of
        None \<Rightarrow> ''Failed to save review''
      | Some d \<Rightarrow>
          if truthy d then (case d of JString m \<Rightarrow> m | _ \<Rightarrow> coerced_message E d)
          else ''Failed to save review'')"
  by (cases v) (simp_all add: failure_message_def)

section \<open>The decimal text of a status code\<close>

lemma digits_value_snoc:
  "digits_value b (ds @ [c]) =
     digits_value b ds * b + (case digit_of c of None \<Rightarrow> 0 | Some d \<Rightarrow> d)"
  by (simp add: digits_value_def)

lemma digit_of_char_of: "d < 10 \<Longrightarrow> digit_of (char_of (48 + d)) = Some (int d)"
proof -
  assume d: "d < 10"
  have "(of_char (char_of (48 + d)) :: int) = int (of_char (char_of (48 + d)))"
    by (simp only: of_nat_of_char)
  also have "\<dots> = int (48 + d)" using d by simp
  finally show ?thesis using d by (simp add: digit_of_def)
qed

lemma decimal_value: "digits_value 10 (decimal n) = int n"
proof (induction n rule: decimal.induct)
  case (1 n)
  show ?case
  proof (cases "n < 10")
    case True
    then have "decimal n = [char_of (48 + n)]" by (simp add: decimal.simps[of n])
    then show ?thesis using True by (simp add: digits_value_def digit_of_char_of)
  next
    case False
    then have d: "decimal n = decimal (n div 10) @ [char_of (48 + n mod 10)]"
      by (simp add: decimal.simps[of n])
    have "digits_value 10 (decimal n) = digits_value 10 (decimal (n div 10)) * 10 + int (n mod 10)"
      unfolding d by (simp add: digits_value_snoc digit_of_char_of)
    also have "\<dots> = int (n div 10) * 10 + int (n mod 10)" using 1 False by simp
    also have "\<dots> = int n" by (simp add: zdiv_int zmod_int)
    finally show ?thesis .
  qed
qed

lemma decimal_digits: "list_all (is_digit_in 10) (decimal n)"
proof (induction n rule: decimal.induct)
  case (1 n)
  show ?case
  proof (cases "n < 10")
    case True
    then have "decimal n = [char_of (48 + n)]" by (simp add: decimal.simps[of n])
    then show ?thesis using True by (simp add: is_digit_in_def digit_of_char_of)
  next
    case False
    then have d: "decimal n = decimal (n div 10) @ [char_of (48 + n mod 10)]"
      by (simp add: decimal.simps[of n])
    show ?thesis unfolding d using 1 False by (simp add: is_digit_in_def digit_of_char_of)
  qed
qed

lemma decimal_examples: "decimal 404 = ''404''" "decimal 500 = ''500''"
  by code_simp+

section \<open>Runs in which every GET succeeds\<close>

lemma step_keeps_one_message:
  assumes "get_succeeds ev" and "error s = [] \<or> success s = []"
  shows "error (step E s ev) = [] \<or> success (step E s ev) = []"
proof (cases ev)
  case (Load get)
  then obtain data where "fetch_reviews get = Inr data"
    using assms(1) by (auto split: sum.splits)
  then show ?thesis using Load assms(2) by (simp add: loadReviews_ok)
next
  case (Change name v)
  then show ?thesis using assms(2) by (simp add: onChange_def)
next
  case (Submit post get)
  then obtain data where "fetch_reviews get = Inr data"
    using assms(1) by (auto split: sum.splits)
  then show ?thesis using Submit
    by (simp add: messages_onSubmit split: option.splits fetch_result.splits)
qed

lemma run_keeps_one_message:
  "\<forall>ev \<in> set evs. get_succeeds ev \<Longrightarrow> error s = [] \<or> success s = [] \<Longrightarrow>
   error (run E evs s) = [] \<or> success (run E evs s) = []"
proof (induction evs arbitrary: s)
  case Nil
  then show ?case by (simp add: run_def)
next
  case (Cons ev evs)
  have "error (step E s ev) = [] \<or> success (step E s ev) = []"
    using Cons.prems by (simp add: step_keeps_one_message)
  then have "error (run E evs (step E s ev)) = [] \<or> success (run E evs (step E s ev)) = []"
    using Cons.prems(1) by (intro Cons.IH) simp_all
  then show ?case by (simp add: run_def)
qed

section \<open>The worked example\<close>

lemma example_payload:
  "make_payload example_form =
     \<lparr>p_title = ''Inception'', p_review = ''A dream within a dream.'', p_rating = Fin 7,
      p_watched_on = None, p_poster_url = Some ''https://example.org/inception.jpg'',
      p_tags = Some [''action'', ''sci-fi'', ''classic'']\<rparr>"
  by (simp add: make_payload_def example_form_def trim_def is_js_space_def split_def or_null_def)

lemma example_valid: "validate (make_payload example_form) = None"
  by (simp add: example_payload validate_def isNaN_def)

lemma example_state_simps:
  "form example_state = example_form" "requests example_state = []"
  "error example_state = []" "success example_state = []" "items example_state = JArray []"
  by (simp_all add: example_state_def initial_state_def)

lemmas number_defs =
  string_to_number_def trim_def is_js_space_def non_decimal_def is_digit_in_def digit_of_def
  unsigned_decimal_def exponent_part_def signed_integer_def digits_value_def pow10_def
  to_double_def floor_log2_def round_half_even_def pow2_def bit_len.simps Let_def

lemma number_examples:
  "string_to_number ''0'' = Fin 0" "string_to_number ''10'' = Fin 10"
  "string_to_number ''-1'' = Fin (- 1)" "string_to_number ''11'' = Fin 11"
  "string_to_number ''abc'' = NaN" "string_to_number '' 7 '' = Fin 7"
  "string_to_number ''0x0A'' = Fin 10" "string_to_number ''1e1'' = Fin 10"
  "string_to_number ''-Infinity'' = NegInf"
  by (simp_all add: number_defs)

section \<open>Validation of the form\<close>

text \<open>
  Claim C1. Whenever the title or the review of the form is empty after trimming, submit
  ends with the error message "Please provide at least a title and your review.", has
  issued no request (the list of requests is the one before the call, so no POST was
  made), and has cleared the submitting flag.
\<close>

theorem submit_requires_title_and_review:
  assumes "trim (title (form s)) = [] \<or> trim (review (form s)) = []"
  shows "error (onSubmit E post get s) = ''Please provide at least a title and your review.''
       \<and> requests (onSubmit E post get s) = requests s
       \<and> \<not> submitting (onSubmit E post get s)"
proof -
  from assms have
    "validate (make_payload (form s)) = Some ''Please provide at least a title and your review.''"
    by (auto simp: validate_def make_payload_def)
  then show ?thesis by (simp add: onSubmit_invalid)
qed

theorem submit_requires_title_and_review_witness:
  "(trim (title (form initial_state)) = [] \<or> trim (review (form initial_state)) = [])
   \<and> error (onSubmit example_engine (Rejected ''offline'') (Rejected ''offline'') initial_state)
       = ''Please provide at least a title and your review.''
   \<and> requests (onSubmit example_engine (Rejected ''offline'') (Rejected ''offline'') initial_state)
       = []
   \<and> \<not> submitting
         (onSubmit example_engine (Rejected ''offline'') (Rejected ''offline'') initial_state)"
proof -
  have h: "trim (title (form initial_state)) = [] \<or> trim (review (form initial_state)) = []"
    by (simp add: initial_state_def empty_form_def trim_def)
  have r: "requests initial_state = []"
    by (simp add: initial_state_def)
  show ?thesis
    using h r
      submit_requires_title_and_review
        [OF h, of example_engine "Rejected ''offline''" "Rejected ''offline''"]
    by simp
qed

text \<open>
  Claim C2. With a title and a review that are not empty after trimming, the rating check
  throws "Rating must be between 0 and 10" exactly when \<open>Number(form.rating)\<close> is NaN, less
  than 0 or greater than 10. When it throws, that message is the error shown and no request
  is issued; when it does not, validation passes, the rating is a finite number from 0 to
  10, and the POST is issued with that rating. The ratings 0 and 10 are not rejected.
\<close>

theorem rating_must_be_between_0_and_10:
  assumes "trim (title (form s)) \<noteq> []" and "trim (review (form s)) \<noteq> []"
  shows "let r = to_number (rating (form s));
             p = make_payload (form s);
             s' = onSubmit E post get s;
             rejected = (isNaN r \<or> js_less r (Fin 0) \<or> js_less (Fin 10) r)
         in (validate p = Some ''Rating must be between 0 and 10'' \<longleftrightarrow> rejected)
          \<and> (rejected \<longrightarrow>
                error s' = ''Rating must be between 0 and 10'' \<and> requests s' = requests s
                \<and> \<not> submitting s')
          \<and> (\<not> rejected \<longrightarrow>
                validate p = None \<and> p_rating p = r
                \<and> (\<exists>q. r = Fin q \<and> 0 \<le> q \<and> q \<le> 10)
                \<and> (\<exists>rest. requests s' = requests s @ Post_review p # rest))
          \<and> (r = Fin 0 \<or> r = Fin 10 \<longrightarrow> \<not> rejected)"
proof -
  let ?r = "to_number (rating (form s))"
  let ?p = "make_payload (form s)"
  let ?rej = "isNaN ?r \<or> js_less ?r (Fin 0) \<or> js_less (Fin 10) ?r"
  have t: "p_title ?p \<noteq> []" "p_review ?p \<noteq> []" "p_rating ?p = ?r"
    using assms by (simp_all add: make_payload_def)
  have v1: "?rej \<Longrightarrow> validate ?p = Some ''Rating must be between 0 and 10''"
    using t by (simp add: validate_def)
  have v2: "\<not> ?rej \<Longrightarrow> validate ?p = None"
    using t by (simp add: validate_def)
  have a: "validate ?p = Some ''Rating must be between 0 and 10'' \<longleftrightarrow> ?rej"
    using v1 v2 by (cases ?rej) simp_all
  have b: "?rej \<Longrightarrow> error (onSubmit E post get s) = ''Rating must be between 0 and 10''
              \<and> requests (onSubmit E post get s) = requests s
              \<and> \<not> submitting (onSubmit E post get s)"
    using v1 by (simp add: onSubmit_invalid)
  have c: "\<exists>rest. requests (onSubmit E post get s) = requests s @ Post_review ?p # rest"
    if "\<not> ?rej"
    using v2[OF that] by (simp add: requests_onSubmit)
  have d: "?r = Fin 0 \<or> ?r = Fin 10 \<Longrightarrow> \<not> ?rej"
    by (auto simp: isNaN_def)
  have e: "\<exists>q. ?r = Fin q \<and> 0 \<le> q \<and> q \<le> 10" if "\<not> ?rej"
    using that by (cases ?r) (simp_all add: isNaN_def)
  show ?thesis
    unfolding Let_def using a b c d e v2 t(3) by blast
qed

theorem rating_must_be_between_0_and_10_witness:
  "trim (title (form (onChange Rating ''11'' example_state))) \<noteq> []
   \<and> trim (review (form (onChange Rating ''11'' example_state))) \<noteq> []
   \<and> to_number (rating (form (onChange Rating ''11'' example_state))) = Fin 11
   \<and> error (onSubmit example_engine (Rejected ''offline'') (Rejected ''offline'')
              (onChange Rating ''11'' example_state))
       = ''Rating must be between 0 and 10''
   \<and> requests (onSubmit example_engine (Rejected ''offline'') (Rejected ''offline'')
                 (onChange Rating ''11'' example_state)) = []"
proof -
  let ?s = "onChange Rating ''11'' example_state"
  have f: "title (form ?s) = ''  Inception  ''" "review (form ?s) = ''A dream within a dream.''"
    "rating (form ?s) = TextValue ''11''" "requests ?s = []"
    by (simp_all add: onChange_def example_state_def example_form_def initial_state_def)
  have h1: "trim (title (form ?s)) \<noteq> []" and h2: "trim (review (form ?s)) \<noteq> []"
    by (simp_all add: f trim_def is_js_space_def)
  have n: "to_number (rating (form ?s)) = Fin 11"
    unfolding f by (simp add: number_defs)
  show ?thesis
    using h1 h2 n f(4)
      rating_must_be_between_0_and_10 [OF h1 h2, of example_engine "Rejected ''offline''" "Rejected ''offline''"]
    by (simp add: Let_def isNaN_def)
qed

text \<open>
  Claim C10. When the rating field is the empty string, and title and review are not empty
  after trimming, \<open>Number\<close> gives 0, validation passes (no not-a-number error is thrown),
  and the POST is issued with rating 0.
\<close>

theorem empty_rating_is_zero:
  assumes "rating (form s) = TextValue []"
    and "trim (title (form s)) \<noteq> []" and "trim (review (form s)) \<noteq> []"
  shows "to_number (rating (form s)) = Fin 0
       \<and> validate (make_payload (form s)) = None
       \<and> p_rating (make_payload (form s)) = Fin 0
       \<and> (\<exists>rest. requests (onSubmit E post get s)
                    = requests s @ Post_review (make_payload (form s)) # rest)"
proof -
  have z: "to_number (rating (form s)) = Fin 0"
    using assms(1) by (simp add: string_to_number_def trim_Nil)
  then have r: "p_rating (make_payload (form s)) = Fin 0"
    by (simp add: make_payload_def)
  have v: "validate (make_payload (form s)) = None"
    using assms(2,3) z by (simp add: validate_def make_payload_def isNaN_def)
  show ?thesis using z r v by (simp add: requests_onSubmit)
qed

theorem empty_rating_is_zero_witness:
  "rating (form (onChange Rating [] example_state)) = TextValue []
   \<and> trim (title (form (onChange Rating [] example_state))) \<noteq> []
   \<and> trim (review (form (onChange Rating [] example_state))) \<noteq> []
   \<and> p_rating (make_payload (form (onChange Rating [] example_state))) = Fin 0
   \<and> validate (make_payload (form (onChange Rating [] example_state))) = None"
proof -
  let ?s = "onChange Rating [] example_state"
  have f: "title (form ?s) = ''  Inception  ''" "review (form ?s) = ''A dream within a dream.''"
    by (simp_all add: onChange_def example_state_def example_form_def initial_state_def)
  have h0: "rating (form ?s) = TextValue []"
    by (simp add: onChange_def)
  have h1: "trim (title (form ?s)) \<noteq> []" and h2: "trim (review (form ?s)) \<noteq> []"
    by (simp_all add: f trim_def is_js_space_def)
  show ?thesis
    using h0 h1 h2 empty_rating_is_zero [OF h0 h1 h2, of example_engine "Rejected []" "Rejected []"]
    by simp
qed

section \<open>The payload\<close>

text \<open>
  Claim C3. The tags of the payload are null for the empty string; otherwise the raw string
  is split at the commas (the pieces joined by commas give the raw string back, and no piece
  holds a comma; there is one piece more than there are commas), each piece is trimmed, the
  empty ones are dropped, and the order is kept; so every tag is non-empty, free of commas
  and free of white space at its ends.
  A form that passes validation is sent with exactly this payload. The string
  "action, sci-fi ,  , classic" gives action, sci-fi, classic; the empty string gives null;
  ",,," gives the empty sequence, not null.
\<close>

theorem tags_normalised:
  "p_tags (make_payload (form s)) =
     (if tags (form s) = [] then None
      else Some (filter (\<lambda>t. t \<noteq> []) (map trim (split CHR '','' (tags (form s))))))
   \<and> join CHR '','' (split CHR '','' (tags (form s))) = tags (form s)
   \<and> (\<forall>p \<in> set (split CHR '','' (tags (form s))). CHR '','' \<notin> set p)
   \<and> length (split CHR '','' (tags (form s)))
        = Suc (length (filter (\<lambda>c. c = CHR '','') (tags (form s))))
   \<and> (\<forall>ts. p_tags (make_payload (form s)) = Some ts \<longrightarrow>
         (\<forall>t \<in> set ts. t \<noteq> [] \<and> CHR '','' \<notin> set t
            \<and> \<not> is_js_space (hd t) \<and> \<not> is_js_space (last t)))
   \<and> (validate (make_payload (form s)) = None \<longrightarrow>
        (\<exists>rest. requests (onSubmit E post get s)
                  = requests s @ Post_review (make_payload (form s)) # rest))
   \<and> p_tags (make_payload (f\<lparr>tags := ''action, sci-fi ,  , classic''\<rparr>))
        = Some [''action'', ''sci-fi'', ''classic'']
   \<and> p_tags (make_payload (f\<lparr>tags := []\<rparr>)) = None
   \<and> p_tags (make_payload (f\<lparr>tags := '',,,''\<rparr>)) = Some []"
proof -
  have a: "p_tags (make_payload (form s)) =
     (if tags (form s) = [] then None
      else Some (filter (\<lambda>t. t \<noteq> []) (map trim (split CHR '','' (tags (form s))))))"
    by (simp add: make_payload_def)
  have b: "\<forall>p \<in> set (split CHR '','' (tags (form s))). CHR '','' \<notin> set p"
    using split_no_sep by blast
  have c: "validate (make_payload (form s)) = None \<longrightarrow>
        (\<exists>rest. requests (onSubmit E post get s)
                  = requests s @ Post_review (make_payload (form s)) # rest)"
    by (simp add: requests_onSubmit)
  have d: "p_tags (make_payload (f\<lparr>tags := ''action, sci-fi ,  , classic''\<rparr>))
        = Some [''action'', ''sci-fi'', ''classic'']"
    by (simp add: make_payload_def split_def trim_def is_js_space_def)
  have e: "p_tags (make_payload (f\<lparr>tags := []\<rparr>)) = None"
    by (simp add: make_payload_def)
  have g: "p_tags (make_payload (f\<lparr>tags := '',,,''\<rparr>)) = Some []"
    by (simp add: make_payload_def split_def trim_def)
  have h: "length (split CHR '','' (tags (form s)))
        = Suc (length (filter (\<lambda>c. c = CHR '','') (tags (form s))))"
    by (simp add: split_def length_split_from)
  have i: "t \<noteq> [] \<and> CHR '','' \<notin> set t \<and> \<not> is_js_space (hd t) \<and> \<not> is_js_space (last t)"
    if "p_tags (make_payload (form s)) = Some ts" "t \<in> set ts" for ts t
  proof -
    from that a obtain p where p: "p \<in> set (split CHR '','' (tags (form s)))" "t = trim p" "t \<noteq> []"
      by (auto split: if_splits)
    have "CHR '','' \<notin> set t" using p(1,2) b set_trim[of p] by blast
    then show ?thesis using p(2,3) trim_hd[of p] trim_last[of p] by simp
  qed
  show ?thesis using a b c d e g h i join_split by blast
qed

theorem tags_normalised_witness:
  "validate (make_payload (form example_state)) = None
   \<and> (\<exists>rest. requests (onSubmit example_engine (Rejected ''offline'') (Rejected ''offline'')
                          example_state)
        = Post_review (make_payload example_form) # rest)
   \<and> p_tags (make_payload example_form) = Some [''action'', ''sci-fi'', ''classic'']"
proof -
  have v: "validate (make_payload (form example_state)) = None"
    by (simp add: example_state_simps example_valid)
  have "\<exists>rest. requests (onSubmit example_engine (Rejected ''offline'') (Rejected ''offline'')
                          example_state)
        = requests example_state @ Post_review (make_payload (form example_state)) # rest"
    using v
      tags_normalised
        [of example_state example_engine "Rejected ''offline''" "Rejected ''offline''"]
    by blast
  then show ?thesis
    using v by (simp add: example_state_simps example_payload)
qed

text \<open>
  Claim C8. In the payload, title and review are the form's texts trimmed: what is left after
  removing a run of white space at each end, so that a non-empty result neither starts nor
  ends with white space; "  Inception  " becomes "Inception". \<open>watched_on\<close> and
  \<open>poster_url\<close> are null when the raw value is the empty string and the raw value otherwise.
  A form that passes validation is sent with exactly this payload.
\<close>

theorem payload_fields:
  "let f = form s; p = make_payload f in
     p_title p = trim (title f) \<and> p_review p = trim (review f)
   \<and> (\<exists>a b. title f = a @ p_title p @ b \<and> list_all is_js_space a \<and> list_all is_js_space b)
   \<and> (\<exists>a b. review f = a @ p_review p @ b \<and> list_all is_js_space a \<and> list_all is_js_space b)
   \<and> (p_title p \<noteq> [] \<longrightarrow>
         \<not> is_js_space (hd (p_title p)) \<and> \<not> is_js_space (last (p_title p)))
   \<and> (p_review p \<noteq> [] \<longrightarrow>
         \<not> is_js_space (hd (p_review p)) \<and> \<not> is_js_space (last (p_review p)))
   \<and> p_watched_on p = (if watched_on f = [] then None else Some (watched_on f))
   \<and> p_poster_url p = (if poster_url f = [] then None else Some (poster_url f))
   \<and> (validate p = None \<longrightarrow>
        (\<exists>rest. requests (onSubmit E post get s) = requests s @ Post_review p # rest))
   \<and> trim ''  Inception  '' = ''Inception''"
proof -
  let ?f = "form s"
  let ?p = "make_payload ?f"
  have t: "p_title ?p = trim (title ?f)" "p_review ?p = trim (review ?f)"
    "p_watched_on ?p = (if watched_on ?f = [] then None else Some (watched_on ?f))"
    "p_poster_url ?p = (if poster_url ?f = [] then None else Some (poster_url ?f))"
    by (simp_all add: make_payload_def or_null_def)
  have c: "validate ?p = None \<longrightarrow>
        (\<exists>rest. requests (onSubmit E post get s) = requests s @ Post_review ?p # rest)"
    by (simp add: requests_onSubmit)
  have e: "trim ''  Inception  '' = ''Inception''"
    by (simp add: trim_def is_js_space_def)
  show ?thesis
    unfolding Let_def t
    using c e trim_decomp[of "title ?f"] trim_decomp[of "review ?f"]
      trim_hd[of "title ?f"] trim_last[of "title ?f"]
      trim_hd[of "review ?f"] trim_last[of "review ?f"]
    by simp
qed

theorem payload_fields_witness:
  "validate (make_payload (form example_state)) = None
   \<and> (\<exists>rest. requests (onSubmit example_engine (Rejected ''offline'') (Rejected ''offline'')
                          example_state)
        = Post_review (make_payload example_form) # rest)
   \<and> p_title (make_payload example_form) = ''Inception''
   \<and> p_watched_on (make_payload example_form) = None
   \<and> p_poster_url (make_payload example_form) = Some ''https://example.org/inception.jpg''"
proof -
  have v: "validate (make_payload (form example_state)) = None"
    by (simp add: example_state_simps example_valid)
  have "\<exists>rest. requests (onSubmit example_engine (Rejected ''offline'') (Rejected ''offline'')
                          example_state)
        = requests example_state @ Post_review (make_payload (form example_state)) # rest"
    using v
      payload_fields
        [of example_state example_engine "Rejected ''offline''" "Rejected ''offline''"]
    unfolding Let_def by blast
  then show ?thesis
    using v by (simp add: example_state_simps example_payload)
qed

section \<open>The outcome of a submit\<close>

text \<open>
  Claim C4. When the POST of a submit is answered with a 2xx status, the success message is
  "Saved!", the form is back at its defaults (title, review, watched_on, poster_url and tags
  empty, rating the number 7), and the loader has run after the POST: the requests issued
  are the POST followed by the GET, and when that GET delivers a list, the list is the
  review list of the resulting state.
\<close>

theorem successful_submit:
  assumes "validate (make_payload (form s)) = None" and "ok st"
  shows "let s' = onSubmit E (Response st body) get s in
           success s' = ''Saved!''
         \<and> form s' = empty_form
         \<and> title (form s') = [] \<and> review (form s') = [] \<and> watched_on (form s') = []
         \<and> poster_url (form s') = [] \<and> tags (form s') = []
         \<and> rating (form s') = NumberValue (Fin 7)
         \<and> requests s' = requests s @ [Post_review (make_payload (form s)), Get_reviews]
         \<and> (\<forall>st' data. get = Response st' (Inr data) \<and> ok st' \<longrightarrow> items s' = data)
         \<and> \<not> submitting s' \<and> \<not> loading s'"
proof -
  let ?s' = "onSubmit E (Response st body) get s"
  have a: "success ?s' = ''Saved!''" "form ?s' = empty_form" "\<not> loading ?s'"
    using assms by (simp_all add: onSubmit_ok loadReviews_frame)
  have b: "requests ?s' = requests s @ [Post_review (make_payload (form s)), Get_reviews]"
    using assms by (simp add: requests_onSubmit)
  have c: "items ?s' = data" if "get = Response st' (Inr data)" "ok st'" for st' data
    using assms that by (simp add: items_onSubmit_ok fetch_reviews_def)
  show ?thesis
    unfolding Let_def using a b c submitting_onSubmit[of E "Response st body" get s]
    by (simp add: empty_form_def)
qed

theorem successful_submit_witness:
  "validate (make_payload (form example_state)) = None \<and> ok 201
   \<and> success (onSubmit example_engine (Response 201 (Inr JNull))
                (Response 200 (Inr (JArray [JObject [(''title'', JString ''Inception'')]])))
                example_state) = ''Saved!''
   \<and> form (onSubmit example_engine (Response 201 (Inr JNull))
                (Response 200 (Inr (JArray [JObject [(''title'', JString ''Inception'')]])))
                example_state) = empty_form
   \<and> items (onSubmit example_engine (Response 201 (Inr JNull))
                (Response 200 (Inr (JArray [JObject [(''title'', JString ''Inception'')]])))
                example_state) = JArray [JObject [(''title'', JString ''Inception'')]]"
proof -
  have v: "validate (make_payload (form example_state)) = None"
    by (simp add: example_state_simps example_valid)
  have k: "ok 201" "ok 200" by (simp_all add: ok_def)
  show ?thesis
    using v k
      successful_submit [OF v k(1), of example_engine "Inr JNull"
        "Response 200 (Inr (JArray [JObject [(''title'', JString ''Inception'')]]))"]
    unfolding Let_def by blast
qed

text \<open>
  Claim C5. Submit always ends with the submitting flag cleared, whatever the validation and
  the answers of the backend. When the POST is answered with a status outside 2xx, the
  review list and the form are as before the submit, and no GET is issued: the only request
  is the POST.
\<close>

theorem failed_submit_keeps_list_and_form:
  "\<not> submitting (onSubmit E post get s)
   \<and> (\<not> ok st \<longrightarrow>
        (let s' = onSubmit E (Response st body) get s in
           items s' = items s \<and> form s' = form s \<and> loading s' = loading s
         \<and> requests s' =
             requests s @
             (case validate (make_payload (form s)) of
                None \<Rightarrow> [Post_review (make_payload (form s))]
              | Some m \<Rightarrow> [])
         \<and> Get_reviews \<notin> set (drop (length (requests s)) (requests s'))))"
proof -
  have "items (onSubmit E (Response st body) get s) = items s
      \<and> form (onSubmit E (Response st body) get s) = form s
      \<and> loading (onSubmit E (Response st body) get s) = loading s" if "\<not> ok st"
    using that
    by (cases "validate (make_payload (form s))") (simp_all add: onSubmit_invalid onSubmit_not_ok)
  moreover have "requests (onSubmit E (Response st body) get s) =
             requests s @
             (case validate (make_payload (form s)) of
                None \<Rightarrow> [Post_review (make_payload (form s))]
              | Some m \<Rightarrow> [])" if "\<not> ok st"
    using that by (simp add: requests_onSubmit split: option.splits)
  ultimately show ?thesis
    unfolding Let_def using submitting_onSubmit[of E post get s]
    by (auto split: option.splits)
qed

theorem failed_submit_keeps_list_and_form_witness:
  "\<not> ok 400
   \<and> items (onSubmit example_engine
              (Response 400 (Inr (JObject [(''detail'', JString ''Title already exists'')])))
              (Rejected ''offline'') example_state) = JArray []
   \<and> form (onSubmit example_engine
              (Response 400 (Inr (JObject [(''detail'', JString ''Title already exists'')])))
              (Rejected ''offline'') example_state) = example_form
   \<and> requests (onSubmit example_engine
              (Response 400 (Inr (JObject [(''detail'', JString ''Title already exists'')])))
              (Rejected ''offline'') example_state) = [Post_review (make_payload example_form)]
   \<and> \<not> submitting (onSubmit example_engine
              (Response 400 (Inr (JObject [(''detail'', JString ''Title already exists'')])))
              (Rejected ''offline'') example_state)"
proof -
  have k: "\<not> ok 400" by (simp add: ok_def)
  have v: "validate (make_payload (form example_state)) = None"
    by (simp add: example_state_simps example_valid)
  show ?thesis
    using k v
      failed_submit_keeps_list_and_form [of example_engine
        "Response 400 (Inr (JObject [(''detail'', JString ''Title already exists'')]))"
        "Rejected ''offline''" example_state 400
        "Inr (JObject [(''detail'', JString ''Title already exists'')])"]
    unfolding Let_def by (simp add: example_state_simps)
qed

text \<open>
  Claim C6, as stated: for a POST answered outside 2xx, a body with a \<open>detail\<close> field gives that
  detail as the error message, and any other body gives "Failed to save review". It fails
  for a body whose detail is the empty string: the message is the generic one, not the
  detail. It fails also for the body \<open>null\<close>, where reading \<open>detail\<close> raises a TypeError
  whose message is shown.
\<close>

theorem detail_used_verbatim_counterexample:
  "validate (make_payload (form example_state)) = None \<and> \<not> ok 400
   \<and> property (JObject [(''detail'', JString [])]) ''detail'' = Some (JString [])
   \<and> error (onSubmit example_engine (Response 400 (Inr (JObject [(''detail'', JString [])])))
               (Rejected ''offline'') example_state) = ''Failed to save review''
   \<and> error (onSubmit example_engine (Response 400 (Inr JNull))
               (Rejected ''offline'') example_state) = ''detail is null''"
proof -
  have v: "validate (make_payload (form example_state)) = None"
    by (simp add: example_state_simps example_valid)
  have k: "\<not> ok 400" by (simp add: ok_def)
  show ?thesis
    using v k
    by (simp add: onSubmit_not_ok failure_message_value failure_message_null example_engine_def)
qed

text \<open>
  Claim C6, amended. For a POST answered outside 2xx: when the body is a JSON object whose
  \<open>detail\<close> is a non-empty string, that string is the error message; when the body cannot
  be parsed, or is a JSON value other than \<open>null\<close> without a \<open>detail\<close> field, or has a
  \<open>detail\<close> that is falsy (the empty string, \<open>null\<close>, \<open>false\<close>, 0), the error message
  is "Failed to save review".
\<close>

theorem server_error_message:
  assumes "validate (make_payload (form s)) = None" and "\<not> ok st"
  shows "let s' = onSubmit E (Response st body) get s in
           (\<forall>v m. body = Inr v \<and> property v ''detail'' = Some (JString m) \<and> m \<noteq> []
                    \<longrightarrow> error s' = m)
         \<and> (\<forall>e. body = Inl e \<longrightarrow> error s' = ''Failed to save review'')
         \<and> (\<forall>v. body = Inr v \<and> v \<noteq> JNull \<and> property v ''detail'' = None
                    \<longrightarrow> error s' = ''Failed to save review'')
         \<and> (\<forall>v d. body = Inr v \<and> property v ''detail'' = Some d \<and> \<not> truthy d
                    \<longrightarrow> error s' = ''Failed to save review'')"
proof -
  have e: "error (onSubmit E (Response st body) get s) = failure_message E body"
    using assms by (simp add: onSubmit_not_ok)
  have n: "v \<noteq> JNull" if "property v ''detail'' = Some d" for v d
    using that by (cases v) simp_all
  show ?thesis
    unfolding Let_def e
    by (auto simp: failure_message_unparseable failure_message_value n)
qed

theorem server_error_message_witness:
  "validate (make_payload (form example_state)) = None \<and> \<not> ok 400
   \<and> error (onSubmit example_engine
               (Response 400 (Inr (JObject [(''detail'', JString ''Title already exists'')])))
               (Rejected ''offline'') example_state) = ''Title already exists''
   \<and> error (onSubmit example_engine (Response 400 (Inl ''Unexpected token''))
               (Rejected ''offline'') example_state) = ''Failed to save review''"
proof -
  have v: "validate (make_payload (form example_state)) = None"
    by (simp add: example_state_simps example_valid)
  have k: "\<not> ok 400" by (simp add: ok_def)
  have p: "property (JObject [(''detail'', JString ''Title already exists'')]) ''detail''
             = Some (JString ''Title already exists'')"
    by simp
  have a: "error (onSubmit example_engine
               (Response 400 (Inr (JObject [(''detail'', JString ''Title already exists'')])))
               (Rejected ''offline'') example_state) = ''Title already exists''"
    using p server_error_message [OF v k, of example_engine
        "Inr (JObject [(''detail'', JString ''Title already exists'')])" "Rejected ''offline''"]
    unfolding Let_def by blast
  have b: "error (onSubmit example_engine (Response 400 (Inl ''Unexpected token''))
               (Rejected ''offline'') example_state) = ''Failed to save review''"
    using server_error_message [OF v k, of example_engine
        "Inl ''Unexpected token''" "Rejected ''offline''"]
    unfolding Let_def by blast
  show ?thesis using v k a b by blast
qed

section \<open>The outcome of a load\<close>

text \<open>
  Claim C7. A load whose GET is rejected, is answered with a status outside 2xx, or is
  answered with a body that cannot be parsed, stores an error message (the message of the
  rejection, "Failed: " followed by the status in decimal, or the message of the parse
  error), leaves the review list as it was, and clears the loading flag.
\<close>

theorem load_failure:
  "let s' = loadReviews get s in
     (\<forall>m. get = Rejected m \<longrightarrow> error s' = m \<and> items s' = items s \<and> \<not> loading s')
   \<and> (\<forall>st body. get = Response st body \<and> \<not> ok st \<longrightarrow>
          error s' = ''Failed: '' @ decimal st \<and> items s' = items s \<and> \<not> loading s')
   \<and> (\<forall>st m. get = Response st (Inl m) \<and> ok st \<longrightarrow>
          error s' = m \<and> items s' = items s \<and> \<not> loading s')
   \<and> digits_value 10 (decimal n) = int n \<and> list_all (is_digit_in 10) (decimal n)"
proof -
  let ?s' = "loadReviews get s"
  have a: "error ?s' = m \<and> items ?s' = items s \<and> \<not> loading ?s'"
    if "get = Rejected m" for m
  proof -
    have "fetch_reviews get = Inl m" using that by (simp add: fetch_reviews_def)
    then show ?thesis by (simp add: loadReviews_failed)
  qed
  have b: "error ?s' = ''Failed: '' @ decimal st \<and> items ?s' = items s \<and> \<not> loading ?s'"
    if "get = Response st body" "\<not> ok st" for st body
  proof -
    have "fetch_reviews get = Inl (''Failed: '' @ decimal st)"
      using that by (simp add: fetch_reviews_def)
    then show ?thesis by (simp add: loadReviews_failed)
  qed
  have c: "error ?s' = m \<and> items ?s' = items s \<and> \<not> loading ?s'"
    if "get = Response st (Inl m)" "ok st" for st m
  proof -
    have "fetch_reviews get = Inl m" using that by (simp add: fetch_reviews_def)
    then show ?thesis by (simp add: loadReviews_failed)
  qed
  show ?thesis
    unfolding Let_def using a b c decimal_value[of n] decimal_digits[of n] by blast
qed

theorem load_failure_witness:
  "\<not> ok 500
   \<and> error (loadReviews (Response 500 (Inl ''Unexpected token'')) example_state) = ''Failed: 500''
   \<and> items (loadReviews (Response 500 (Inl ''Unexpected token'')) example_state) = JArray []
   \<and> \<not> loading (loadReviews (Response 500 (Inl ''Unexpected token'')) example_state)"
proof -
  have k: "\<not> ok 500" by (simp add: ok_def)
  have "error (loadReviews (Response 500 (Inl ''Unexpected token'')) example_state)
          = ''Failed: '' @ decimal 500
      \<and> items (loadReviews (Response 500 (Inl ''Unexpected token'')) example_state)
          = items example_state
      \<and> \<not> loading (loadReviews (Response 500 (Inl ''Unexpected token'')) example_state)"
    using k load_failure [of "Response 500 (Inl ''Unexpected token'')" example_state]
    unfolding Let_def by blast
  then show ?thesis
    using k by (simp add: decimal_examples example_state_simps)
qed

section \<open>The two messages\<close>

text \<open>
  Claim C9, as stated: at every point of every sequence of loads and submits at most one of
  the error message and the success message is non-empty. It fails in the run below: the
  POST of the submit succeeds, the GET of its reload is answered with status 500, and the
  application ends with both "Saved!" and "Failed: 500".
\<close>

theorem one_message_at_a_time_counterexample:
  "error (run example_engine
           [Load (Response 200 (Inr (JArray []))),
            Change Title ''Inception'', Change Review ''A dream within a dream.'',
            Submit (Response 201 (Inr JNull)) (Response 500 (Inl ''Unexpected token''))]
           initial_state) = ''Failed: 500''
   \<and> success (run example_engine
           [Load (Response 200 (Inr (JArray []))),
            Change Title ''Inception'', Change Review ''A dream within a dream.'',
            Submit (Response 201 (Inr JNull)) (Response 500 (Inl ''Unexpected token''))]
           initial_state) = ''Saved!''"
  by (simp add: run_def loadReviews_def fetch_reviews_def ok_def onChange_def onSubmit_def
      submit_body_def validate_def make_payload_def initial_state_def empty_form_def trim_def
      is_js_space_def isNaN_def Let_def decimal_examples or_null_def)

text \<open>
  Claim C9, amended. The messages after a submit are those of that submit alone, whatever
  messages the state held before; the success message is then empty or "Saved!"; and both
  messages are non-empty only when the POST succeeded and the reload failed, the error being
  the message of the failed load. A load leaves the success message as it is and writes the
  error message only when it fails. In every run in which every GET succeeds, started in a
  state with at most one message, at most one of the two messages is non-empty after each
  operation.
\<close>

theorem messages_of_submit_and_load:
  "(let s' = onSubmit E post get s in
      error (onSubmit E post get (s\<lparr>error := e, success := u\<rparr>)) = error s'
    \<and> success (onSubmit E post get (s\<lparr>error := e, success := u\<rparr>)) = success s'
    \<and> (success s' = [] \<or> success s' = ''Saved!'')
    \<and> (success s' \<noteq> [] \<and> error s' \<noteq> [] \<longrightarrow>
          (\<exists>st body. post = Response st body \<and> ok st)
          \<and> fetch_reviews get = Inl (error s')))
   \<and> success (loadReviews get s) = success s
   \<and> (\<forall>data. fetch_reviews get = Inr data \<longrightarrow> error (loadReviews get s) = error s)
   \<and> (\<forall>m. fetch_reviews get = Inl m \<longrightarrow> error (loadReviews get s) = m)
   \<and> ((\<forall>ev \<in> set evs. get_succeeds ev) \<and> (error s = [] \<or> success s = []) \<longrightarrow>
        (\<forall>n. error (run E (take n evs) s) = [] \<or> success (run E (take n evs) s) = []))"
proof -
  let ?s' = "onSubmit E post get s"
  let ?t = "s\<lparr>error := e, success := u\<rparr>"
  have f: "form ?t = form s" by simp
  have a: "error (onSubmit E post get ?t) = error ?s'"
    "success (onSubmit E post get ?t) = success ?s'"
    unfolding messages_onSubmit f by simp_all
  have b: "success ?s' = [] \<or> success ?s' = ''Saved!''"
    by (simp add: messages_onSubmit split: option.splits fetch_result.splits)
  have c: "(\<exists>st body. post = Response st body \<and> ok st) \<and> fetch_reviews get = Inl (error ?s')"
    if "success ?s' \<noteq> []" "error ?s' \<noteq> []"
    using that
    by (auto simp: messages_onSubmit split: option.splits fetch_result.splits sum.splits if_splits)
  have d: "success (loadReviews get s) = success s"
    by (simp add: loadReviews_frame)
  have g: "\<forall>data. fetch_reviews get = Inr data \<longrightarrow> error (loadReviews get s) = error s"
    by (simp add: loadReviews_ok)
  have h: "\<forall>m. fetch_reviews get = Inl m \<longrightarrow> error (loadReviews get s) = m"
    by (simp add: loadReviews_failed)
  have i: "error (run E (take n evs) s) = [] \<or> success (run E (take n evs) s) = []"
    if "\<forall>ev \<in> set evs. get_succeeds ev" "error s = [] \<or> success s = []" for n
  proof -
    have "\<forall>ev \<in> set (take n evs). get_succeeds ev"
      using that(1) by (meson in_set_takeD)
    then show ?thesis using that(2) by (rule run_keeps_one_message)
  qed
  show ?thesis
    unfolding Let_def using a b c d g h i by blast
qed

theorem messages_of_submit_and_load_witness:
  "list_all get_succeeds
      [Load (Response 200 (Inr (JArray []))),
       Change Title ''Inception'', Change Review ''A dream within a dream.'',
       Submit (Response 201 (Inr JNull)) (Response 200 (Inr (JArray [])))]
   \<and> (error initial_state = [] \<or> success initial_state = [])
   \<and> (error (run example_engine
               (take 4 [Load (Response 200 (Inr (JArray []))),
                  Change Title ''Inception'', Change Review ''A dream within a dream.'',
                  Submit (Response 201 (Inr JNull)) (Response 200 (Inr (JArray [])))])
               initial_state) = []
      \<or> success (run example_engine
               (take 4 [Load (Response 200 (Inr (JArray []))),
                  Change Title ''Inception'', Change Review ''A dream within a dream.'',
                  Submit (Response 201 (Inr JNull)) (Response 200 (Inr (JArray [])))])
               initial_state) = [])
   \<and> success (run example_engine
               [Load (Response 200 (Inr (JArray []))),
                  Change Title ''Inception'', Change Review ''A dream within a dream.'',
                  Submit (Response 201 (Inr JNull)) (Response 200 (Inr (JArray [])))]
               initial_state) = ''Saved!''"
proof -
  let ?evs = "[Load (Response 200 (Inr (JArray []))),
                Change Title ''Inception'', Change Review ''A dream within a dream.'',
                Submit (Response 201 (Inr JNull)) (Response 200 (Inr (JArray [])))]"
  have g: "\<forall>ev \<in> set ?evs. get_succeeds ev"
    by (simp add: fetch_reviews_def ok_def)
  have i: "error initial_state = [] \<or> success initial_state = []"
    by (simp add: initial_state_def)
  have r: "error (run example_engine (take 4 ?evs) initial_state) = []
         \<or> success (run example_engine (take 4 ?evs) initial_state) = []"
    using g i
      messages_of_submit_and_load
        [of example_engine "Rejected []" "Rejected []" initial_state "[]" "[]" ?evs]
    unfolding Let_def by blast
  have s: "success (run example_engine ?evs initial_state) = ''Saved!''"
    by (simp add: run_def loadReviews_def fetch_reviews_def ok_def onChange_def onSubmit_def
      submit_body_def validate_def make_payload_def initial_state_def empty_form_def trim_def
      is_js_space_def isNaN_def Let_def or_null_def)
  have l: "list_all get_succeeds ?evs"
    by (simp add: fetch_reviews_def ok_def)
  show ?thesis using l i r s by blast
qed

end
